theory Spec2Isabelle
  imports Complex_Main
begin

section \<open>The expiring cache (class \<open>Cache<T>\<close>)\<close>

text \<open>
  The class of \<^verbatim>\<open>src/types/cache.types.ts\<close> and \<^verbatim>\<open>src/unnamed/part_001\<close>, and the
  copies inlined in \<^verbatim>\<open>src/components/SalesDashboard.tsx\<close> and \<^verbatim>\<open>src/unnamed/part_005\<close>:
  \<^verbatim>\<open>
  interface CacheItem<T> { data: T; timestamp: number; }
  class Cache<T> {
    private cache = new Map<string, CacheItem<T>>();
    private duration: number;
    get(key) {
      const cached = this.cache.get(key);
      if (cached && Date.now() - cached.timestamp < this.duration) return cached.data;
      this.cache.delete(key);
      return null;
    }
    set(key, data) { this.cache.set(key, { data, timestamp: Date.now() }); }
    clear() { this.cache.clear(); }
    has(key) { return this.get(key) !== null; }
  }
  \<close>
  The object is mutated in place; the model passes it in and returns it updated.
  \<open>Date.now()\<close> is the explicit argument \<open>now\<close>, a whole number of milliseconds
  (such numbers are exact in a JavaScript \<open>number\<close>, so \<open>int\<close> arithmetic is the
  code's). \<open>null\<close> is \<open>None\<close>.
\<close>

record 'a CacheItem =
  data :: 'a
  timestamp :: int

record 'a Cache =
  cache :: "string \<rightharpoonup> 'a CacheItem"
  duration :: int

definition new_Cache :: "int \<Rightarrow> 'a Cache" where
  "new_Cache durationMs = \<lparr>cache = Map.empty, duration = durationMs\<rparr>"

definition Cache_get :: "int \<Rightarrow> string \<Rightarrow> 'a Cache \<Rightarrow> 'a option \<times> 'a Cache" where
  "Cache_get now key c =
     (case cache c key of
        Some cached \<Rightarrow>
          if now - timestamp cached < duration c then (Some (data cached), c)
          else (None, c\<lparr>cache := (cache c)(key := None)\<rparr>)
      | None \<Rightarrow> (None, c\<lparr>cache := (cache c)(key := None)\<rparr>))"

definition Cache_set :: "int \<Rightarrow> string \<Rightarrow> 'a \<Rightarrow> 'a Cache \<Rightarrow> 'a Cache" where
  "Cache_set now key d c = c\<lparr>cache := (cache c)(key \<mapsto> \<lparr>data = d, timestamp = now\<rparr>)\<rparr>"

definition Cache_clear :: "'a Cache \<Rightarrow> 'a Cache" where
  "Cache_clear c = c\<lparr>cache := Map.empty\<rparr>"

definition Cache_has :: "int \<Rightarrow> string \<Rightarrow> 'a Cache \<Rightarrow> bool \<times> 'a Cache" where
  "Cache_has now key c = (case Cache_get now key c of (r, c') \<Rightarrow> (r \<noteq> None, c'))"



section \<open>The cache key (\<open>getCacheKey\<close>)\<close>

text \<open>
  \<^verbatim>\<open>src/components/SalesDashboard.tsx\<close> line 168 and \<^verbatim>\<open>src/unnamed/part_005\<close> line 114:
  \<^verbatim>\<open>const getCacheKey = (filters: Partial<Filters>): string => JSON.stringify(filters);\<close>

  A \<open>Partial<Filters>\<close> object has its keys among the nine names of \<open>interface Filters\<close>
  and the controller stores only strings under them. An object keeps its properties in
  insertion order, and \<open>JSON.stringify\<close> walks them in that order, so the object is
  the list of its entries, first inserted first. \<open>JSON.stringify\<close> is the ECMAScript
  built-in: an opening brace, the properties \<open>"key":"value"\<close> separated by commas,
  a closing brace, every string quoted by \<open>QuoteJSONString\<close>. Inside the quotes a
  backspace, tab, line feed, form feed, carriage return, double quote or backslash is
  written as a backslash followed by \<open>b\<close>, \<open>t\<close>, \<open>n\<close>, \<open>f\<close>, \<open>r\<close>, the double
  quote or the backslash; any other code unit below \<open>0x20\<close> as a backslash, \<open>u\<close> and
  its four lower-case hexadecimal digits; every other code unit as it is. A \<open>char\<close> is
  a code unit below 256 (among them there is no surrogate, which \<open>QuoteJSONString\<close>
  would escape too).
\<close>

datatype field = StartDate | EndDate | PriceMin | Email | Phone | SortBy | SortOrder | After | Before

fun field_name :: "field \<Rightarrow> string" where
  "field_name StartDate = ''startDate''"
| "field_name EndDate = ''endDate''"
| "field_name PriceMin = ''priceMin''"
| "field_name Email = ''email''"
| "field_name Phone = ''phone''"
| "field_name SortBy = ''sortBy''"
| "field_name SortOrder = ''sortOrder''"
| "field_name After = ''after''"
| "field_name Before = ''before''"

definition hexDigit :: "nat \<Rightarrow> char" where
  "hexDigit n = (if n < 10 then char_of (48 + n) else char_of (87 + n))"

definition UnicodeEscape :: "char \<Rightarrow> string" where
  "UnicodeEscape c =
     (let n = (of_char c :: nat)
      in [CHR 0x5C, CHR ''u'', hexDigit (n div 4096 mod 16), hexDigit (n div 256 mod 16),
          hexDigit (n div 16 mod 16), hexDigit (n mod 16)])"

definition QuoteJSONChar :: "char \<Rightarrow> string" where
  "QuoteJSONChar c =
     (if c = CHR 0x08 then [CHR 0x5C, CHR ''b'']
      else if c = CHR 0x09 then [CHR 0x5C, CHR ''t'']
      else if c = CHR 0x0A then [CHR 0x5C, CHR ''n'']
      else if c = CHR 0x0C then [CHR 0x5C, CHR ''f'']
      else if c = CHR 0x0D then [CHR 0x5C, CHR ''r'']
      else if c = CHR 0x22 then [CHR 0x5C, CHR 0x22]
      else if c = CHR 0x5C then [CHR 0x5C, CHR 0x5C]
      else if (of_char c :: nat) < 0x20 then UnicodeEscape c
      else [c])"

definition QuoteJSONString :: "string \<Rightarrow> string" where
  "QuoteJSONString s = CHR 0x22 # concat (map QuoteJSONChar s) @ [CHR 0x22]"

definition SerializeJSONProperty :: "field \<times> string \<Rightarrow> string" where
  "SerializeJSONProperty p =
     QuoteJSONString (field_name (fst p)) @ CHR '':'' # QuoteJSONString (snd p)"

fun join_comma :: "string list \<Rightarrow> string" where
  "join_comma [] = []"
| "join_comma [x] = x"
| "join_comma (x # y # ys) = x @ CHR '','' # join_comma (y # ys)"

definition JSON_stringify :: "(field \<times> string) list \<Rightarrow> string" where
  "JSON_stringify obj = CHR ''{'' # join_comma (map SerializeJSONProperty obj) @ [CHR ''}'']"

definition getCacheKey :: "(field \<times> string) list \<Rightarrow> string" where
  "getCacheKey filters = JSON_stringify filters"



section \<open>Responses, errors and the network\<close>

text \<open>
  \<^verbatim>\<open>src/unnamed/part_000\<close> and \<^verbatim>\<open>src/types/api.types.ts\<close>:
  \<^verbatim>\<open>
  interface Sale { _id: string; date: string; price: number; customerEmail: string;
                   customerPhone: string; __v: number; }
  interface TotalSale { day: string; totalSale: number; }
  interface SalesResponse {
    results: { TotalSales: TotalSale[]; Sales: Sale[]; };
    pagination: { before: string; after: string; };
  }
  \<close>
  The response is what \<open>response.json()\<close> yields, and the code guards every level of
  it (\<open>data.results?.TotalSales || []\<close>, \<open>data.pagination?.before || ""\<close>), so each
  member of the parsed object may be missing: \<open>None\<close> is \<open>undefined\<close>.
\<close>

record Sale =
  sale_id :: string
  date :: string
  price :: real
  customerEmail :: string
  customerPhone :: string
  version :: real

record TotalSale =
  day :: string
  totalSale :: real

record Results =
  TotalSales :: "TotalSale list option"
  Sales :: "Sale list option"

record Pagination =
  before :: "string option"
  after :: "string option"

record SalesResponse =
  results :: "Results option"
  pagination :: "Pagination option"

text \<open>
  JavaScript truthiness and \<open>||\<close> at the types the code uses them: a string is truthy
  when it is not empty, an array always, \<open>undefined\<close> and \<open>null\<close> never.
\<close>

definition truthy :: "string option \<Rightarrow> bool" where
  "truthy v = (case v of Some s \<Rightarrow> s \<noteq> [] | None \<Rightarrow> False)"

definition str_or :: "string option \<Rightarrow> string \<Rightarrow> string" where
  "str_or v d = (if truthy v then the v else d)"

definition arr_or :: "'a list option \<Rightarrow> 'a list \<Rightarrow> 'a list" where
  "arr_or v d = (case v of Some xs \<Rightarrow> xs | None \<Rightarrow> d)"

text \<open>
  The errors the code throws: \<open>new Error("Authorization failed")\<close> (\<open>AuthError\<close>),
  \<open>new Error(`Failed to fetch sales data: ${response.status} ${errorText}`)\<close>
  (\<open>FetchError\<close>), \<open>new Error("Invalid response from server")\<close>
  (\<open>MalformedResponseError\<close>); a rejected \<open>fetch\<close> or \<open>response.json()\<close>
  (\<open>NetworkError\<close>) and a property read on \<open>undefined\<close> or \<open>null\<close> (\<open>TypeError\<close>)
  come from the runtime.
\<close>

datatype exn =
  AuthError
| FetchError nat string
| MalformedResponseError
| NetworkError
| TypeError

text \<open>
  What the server does with a request is not the program's: it is an argument of the
  model. \<open>Rejected\<close>: the promise of \<open>fetch\<close> or of \<open>response.json()\<close> rejects;
  \<open>NotOk status text\<close>: \<open>response.ok\<close> is false; \<open>OkJson v\<close>: \<open>response.ok\<close> and
  \<open>response.json()\<close> is \<open>v\<close>.
\<close>

datatype 'a http_reply =
  Rejected
| NotOk nat string
| OkJson 'a


section \<open>The token (\<open>getAuthToken\<close>)\<close>

text \<open>
  \<^verbatim>\<open>src/components/SalesDashboard.tsx\<close> lines 92--123:
  \<^verbatim>\<open>
  const TOKEN_CACHE_KEY = "auth_token";
  const tokenCache = new Cache<string>(60 * 60 * 1000); // 1 hour
  const dataCache = new Cache<SalesResponse>(60 * 60 * 1000);

  const getAuthToken = async (): Promise<string> => {
    const cachedToken = tokenCache.get(TOKEN_CACHE_KEY);
    if (cachedToken) { ...; return cachedToken; }
    const response = await fetch(`${API_BASE_URL}/getAuthorize`, { method: "POST", ... });
    if (!response.ok) throw new Error("Authorization failed");
    const data = await response.json();
    console.log("New token received:", data.token);
    console.log("Token length:", data.token.length);
    tokenCache.set(TOKEN_CACHE_KEY, data.token);
    return data.token;
  };
  \<close>
  The reply carries \<open>data.token\<close> (\<open>None\<close> when the body has no token: reading its
  \<open>length\<close> throws). \<open>now\<close> is the clock at \<open>tokenCache.get\<close>, \<open>now'\<close> the clock at
  \<open>tokenCache.set\<close>, after the reply. The result is what the promise settles to, the
  token cache afterwards, and the number of requests sent to \<open>/getAuthorize\<close>.
\<close>

definition TOKEN_CACHE_KEY :: string where
  "TOKEN_CACHE_KEY = ''auth_token''"

definition tokenCache :: "string Cache" where
  "tokenCache = new_Cache (60 * 60 * 1000)"

definition dataCache :: "SalesResponse Cache" where
  "dataCache = new_Cache (60 * 60 * 1000)"

definition getAuthToken ::
  "int \<Rightarrow> string option http_reply \<Rightarrow> int \<Rightarrow> string Cache \<Rightarrow> (exn + string) \<times> string Cache \<times> nat"
where
  "getAuthToken now reply now' tc =
     (case Cache_get now TOKEN_CACHE_KEY tc of
        (cachedToken, tc1) \<Rightarrow>
          if truthy cachedToken then (Inr (the cachedToken), tc1, 0)
          else (case reply of
                  Rejected \<Rightarrow> (Inl NetworkError, tc1, 1)
                | NotOk status text \<Rightarrow> (Inl AuthError, tc1, 1)
                | OkJson None \<Rightarrow> (Inl TypeError, tc1, 1)
                | OkJson (Some token) \<Rightarrow> (Inr token, Cache_set now' TOKEN_CACHE_KEY token tc1, 1)))"


section \<open>The controller (\<open>SalesDashboard\<close>, \<open>fetchSales\<close>)\<close>

text \<open>
  The component's state, \<^verbatim>\<open>src/components/SalesDashboard.tsx\<close> lines 192--212: one
  field for each \<open>useState\<close>. \<open>authToken\<close> is \<open>string | null\<close>, \<open>error\<close> is
  \<open>string | null\<close>.
\<close>

record controller =
  authToken :: "string option"
  totalSalesData :: "TotalSale list"
  salesData :: "Sale list"
  loading :: bool
  error :: "string option"
  startDate :: string
  endDate :: string
  priceMin :: string
  email :: string
  phone :: string
  beforeToken :: string
  afterToken :: string
  currentPage :: int
  sortBy :: string
  sortOrder :: string

datatype direction = Next | Prev

text \<open>
  What a run of \<open>fetchSales\<close> does to the world, in program order: the calls of the
  state setters and the request sent to \<open>/sales\<close> (token and the pairs appended to the
  \<open>URLSearchParams\<close>). A setter does not change the values the running function has
  read; the state after the run is the state before with the calls applied in order.
\<close>

datatype effect =
  SetLoading bool
| SetError "string option"
| SetTotalSalesData "TotalSale list"
| SetSalesData "Sale list"
| SetBeforeToken string
| SetAfterToken string
| Fetch string "(string \<times> string) list"

fun apply_effect :: "controller \<Rightarrow> effect \<Rightarrow> controller" where
  "apply_effect st (SetLoading b) = st\<lparr>loading := b\<rparr>"
| "apply_effect st (SetError e) = st\<lparr>error := e\<rparr>"
| "apply_effect st (SetTotalSalesData ts) = st\<lparr>totalSalesData := ts\<rparr>"
| "apply_effect st (SetSalesData ss) = st\<lparr>salesData := ss\<rparr>"
| "apply_effect st (SetBeforeToken t) = st\<lparr>beforeToken := t\<rparr>"
| "apply_effect st (SetAfterToken t) = st\<lparr>afterToken := t\<rparr>"
| "apply_effect st (Fetch token query) = st"

definition commit :: "controller \<Rightarrow> effect list \<Rightarrow> controller" where
  "commit st es = foldl apply_effect st es"

fun requests :: "effect list \<Rightarrow> (string \<times> (string \<times> string) list) list" where
  "requests [] = []"
| "requests (Fetch token query # es) = (token, query) # requests es"
| "requests (e # es) = requests es"

text \<open>
  \<open>fetchSales\<close> runs without interruption from its call to the \<open>await\<close> of
  \<open>fetchSalesData\<close> (line 293, the first \<open>await\<close> of the function; the path of a cache
  hit returns at line 276 and has none) and from the reply to its return. React applies
  the setter calls queued in one uninterrupted stretch together, when the stretch ends.
  So the states the component is rendered in, from the call on, are the state with the
  calls made so far at each \<open>await\<close> and the state with all the calls at the return:
  \<open>rendered\<close> lists them in order.
\<close>

fun rendered :: "controller \<Rightarrow> effect list \<Rightarrow> controller list" where
  "rendered st [] = [st]"
| "rendered st (Fetch token query # es) = st # rendered st es"
| "rendered st (e # es) = rendered (apply_effect st e) es"

text \<open>
  \<^verbatim>\<open>src/components/SalesDashboard.tsx\<close> lines 125--163 (the same in
  \<^verbatim>\<open>src/unnamed/part_005\<close> lines 74--112):
  \<^verbatim>\<open>
  const fetchSalesData = async (token, params: Partial<Filters>) => {
    const searchParams = new URLSearchParams();
    // Always include required params (even if empty)
    Object.entries(params).forEach(([key, value]) => {
      searchParams.append(key, value || "");
    });
    const response = await fetch(`${API_BASE_URL}/sales?${searchParams}`, { headers: ... });
    if (!response.ok) {
      const errorText = await response.text();
      throw new Error(`Failed to fetch sales data: ${response.status} ${errorText}`);
    }
    const data = await response.json();
    console.log("Data received:", { totalSales: data.results?.TotalSales?.length || 0, ... });
    return data;
  };
  \<close>
  The request is the list of pairs appended to \<open>searchParams\<close>; its text form in the
  URL is the browser's. A body that parses to \<open>null\<close> makes the read of
  \<open>data.results\<close> in the log line throw.
\<close>

definition fetchSalesData_searchParams :: "(field \<times> string) list \<Rightarrow> (string \<times> string) list" where
  "fetchSalesData_searchParams params =
     map (\<lambda>(key, value). (field_name key, str_or (Some value) [])) params"

definition fetchSalesData ::
  "string \<Rightarrow> (field \<times> string) list \<Rightarrow> SalesResponse option http_reply \<Rightarrow> effect \<times> (exn + SalesResponse)"
where
  "fetchSalesData token params reply =
     (Fetch token (fetchSalesData_searchParams params),
      case reply of
        Rejected \<Rightarrow> Inl NetworkError
      | NotOk status errorText \<Rightarrow> Inl (FetchError status errorText)
      | OkJson None \<Rightarrow> Inl TypeError
      | OkJson (Some d) \<Rightarrow> Inr d)"

text \<open>
  \<^verbatim>\<open>src/lib/api.ts\<close> lines 44--76 and \<^verbatim>\<open>src/unnamed/part_002\<close> lines 20--42, the
  module's own \<open>fetchSalesData\<close>:
  \<^verbatim>\<open>
  const searchParams = new URLSearchParams();
  Object.entries(params).forEach(([key, value]) => {
    if (value) searchParams.append(key, value);
  });
  const response = await fetch(`${API_BASE_URL}/sales?${searchParams}`, { headers: ... });
  if (!response.ok) { throw new Error("Failed to fetch sales data"); }
  return response.json();
  \<close>
\<close>

definition api_fetchSalesData_searchParams :: "(field \<times> string) list \<Rightarrow> (string \<times> string) list" where
  "api_fetchSalesData_searchParams params =
     map (\<lambda>(key, value). (field_name key, value)) (filter (\<lambda>(key, value). truthy (Some value)) params)"

definition api_fetchSalesData ::
  "string \<Rightarrow> (field \<times> string) list \<Rightarrow> SalesResponse option http_reply
     \<Rightarrow> effect \<times> (exn + SalesResponse option)"
where
  "api_fetchSalesData token params reply =
     (Fetch token (api_fetchSalesData_searchParams params),
      case reply of
        Rejected \<Rightarrow> Inl NetworkError
      | NotOk status errorText \<Rightarrow> Inl (FetchError status errorText)
      | OkJson d \<Rightarrow> Inr d)"

text \<open>
  \<^verbatim>\<open>src/components/SalesDashboard.tsx\<close> lines 238--345:
  \<^verbatim>\<open>
  const fetchSales = useCallback(async (direction: "next" | "prev" | null = null) => {
      if (!authToken) { return; }
      setLoading(true);
      setError(null);
      const filters: Partial<Filters> = {
        startDate, endDate, priceMin, email, phone, sortBy, sortOrder,
        ...(direction === "next" && afterToken ? { after: afterToken } : {}),
        ...(direction === "prev" && beforeToken ? { before: beforeToken } : {}),
      };
      const cacheKey = getCacheKey(filters);
      const cached = dataCache.get(cacheKey);
      if (cached) {
        setTotalSalesData(cached.results?.TotalSales || []);
        setSalesData(cached.results?.Sales || []);
        setBeforeToken(cached.pagination?.before || "");
        setAfterToken(cached.pagination?.after || "");
        setLoading(false);
        return;
      }
      try {
        const data = await fetchSalesData(authToken, filters);
        if (!data || !data.results) { throw new Error("Invalid response from server"); }
        const totalSales = data.results.TotalSales || [];
        const sales = data.results.Sales || [];
        const beforePagination = data.pagination?.before || "";
        const afterPagination = data.pagination?.after || "";
        setTotalSalesData(totalSales);
        setSalesData(sales);
        setBeforeToken(beforePagination);
        setAfterToken(afterPagination);
        dataCache.set(cacheKey, data);
      } catch (err) {
        setError("Failed to load sales data. Please try again.");
      } finally {
        setLoading(false);
      }
    }, [...]);
  \<close>
  \<open>direction\<close> is \<open>Some Next\<close>, \<open>Some Prev\<close> or \<open>None\<close> (\<open>null\<close>). \<open>now\<close> is the clock at
  \<open>dataCache.get\<close>, \<open>reply\<close> the server's answer should a request be sent, \<open>now'\<close> the
  clock at \<open>dataCache.set\<close>. The result is the effects in program order and the data
  cache afterwards. The part of the function after its guards is \<open>fetchSales_body\<close>: it
  is the same text in \<^verbatim>\<open>src/unnamed/part_005\<close>.
\<close>

definition filters :: "direction option \<Rightarrow> controller \<Rightarrow> (field \<times> string) list" where
  "filters direction st =
     [(StartDate, startDate st), (EndDate, endDate st), (PriceMin, priceMin st),
      (Email, email st), (Phone, phone st), (SortBy, sortBy st), (SortOrder, sortOrder st)]
     @ (if direction = Some Next \<and> truthy (Some (afterToken st)) then [(After, afterToken st)] else [])
     @ (if direction = Some Prev \<and> truthy (Some (beforeToken st)) then [(Before, beforeToken st)] else [])"

definition LOAD_FAILED :: string where
  "LOAD_FAILED = ''Failed to load sales data. Please try again.''"

definition fetchSales_body ::
  "direction option \<Rightarrow> string \<Rightarrow> int \<Rightarrow> SalesResponse option http_reply \<Rightarrow> int \<Rightarrow> controller
     \<Rightarrow> SalesResponse Cache \<Rightarrow> effect list \<times> SalesResponse Cache"
where
  "fetchSales_body direction token now reply now' st dc =
     (let cacheKey = getCacheKey (filters direction st) in
      case Cache_get now cacheKey dc of
        (Some cached, dc1) \<Rightarrow>
          ([SetLoading True, SetError None,
            SetTotalSalesData (arr_or (Option.bind (results cached) TotalSales) []),
            SetSalesData (arr_or (Option.bind (results cached) Sales) []),
            SetBeforeToken (str_or (Option.bind (pagination cached) before) []),
            SetAfterToken (str_or (Option.bind (pagination cached) after) []),
            SetLoading False], dc1)
      | (None, dc1) \<Rightarrow>
          (case fetchSalesData token (filters direction st) reply of
             (request, Inl err) \<Rightarrow>
               ([SetLoading True, SetError None, request,
                 SetError (Some LOAD_FAILED), SetLoading False], dc1)
           | (request, Inr d) \<Rightarrow>
               (case results d of
                  None \<Rightarrow>
                    ([SetLoading True, SetError None, request,
                      SetError (Some LOAD_FAILED), SetLoading False], dc1)
                | Some r \<Rightarrow>
                    ([SetLoading True, SetError None, request,
                      SetTotalSalesData (arr_or (TotalSales r) []),
                      SetSalesData (arr_or (Sales r) []),
                      SetBeforeToken (str_or (Option.bind (pagination d) before) []),
                      SetAfterToken (str_or (Option.bind (pagination d) after) []),
                      SetLoading False], Cache_set now' cacheKey d dc1))))"

definition fetchSales ::
  "direction option \<Rightarrow> int \<Rightarrow> SalesResponse option http_reply \<Rightarrow> int \<Rightarrow> controller
     \<Rightarrow> SalesResponse Cache \<Rightarrow> effect list \<times> SalesResponse Cache"
where
  "fetchSales direction now reply now' st dc =
     (if \<not> truthy (authToken st) then ([], dc)
      else fetchSales_body direction (the (authToken st)) now reply now' st dc)"

text \<open>
  \<^verbatim>\<open>src/unnamed/part_005\<close> lines 143--176, the variant that checks the date range:
  \<^verbatim>\<open>
  const isDateRangeValid = useMemo(() => {
    return !startDate || !endDate || startDate <= endDate;
  }, [startDate, endDate]);

  const fetchSales = useCallback(async (direction = null) => {
      if (!authToken) { return; }
      if (!isDateRangeValid) {
        setError("Please select a valid date range (start date must be before or equal to end date)");
        return;
      }
      setLoading(true);
      ...
  \<close>
  \<open><=\<close> on two strings compares them code unit by code unit, a proper prefix being
  smaller: \<open>a <= b\<close> is the negation of \<open>b < a\<close>.
\<close>

fun js_string_less :: "string \<Rightarrow> string \<Rightarrow> bool" where
  "js_string_less [] [] = False"
| "js_string_less [] (y # ys) = True"
| "js_string_less (x # xs) [] = False"
| "js_string_less (x # xs) (y # ys) =
     (if x = y then js_string_less xs ys else (of_char x :: nat) < of_char y)"

definition isDateRangeValid :: "controller \<Rightarrow> bool" where
  "isDateRangeValid st =
     (\<not> truthy (Some (startDate st)) \<or> \<not> truthy (Some (endDate st))
      \<or> \<not> js_string_less (endDate st) (startDate st))"

definition INVALID_RANGE :: string where
  "INVALID_RANGE =
     ''Please select a valid date range (start date must be before or equal to end date)''"

definition part_005_fetchSales ::
  "direction option \<Rightarrow> int \<Rightarrow> SalesResponse option http_reply \<Rightarrow> int \<Rightarrow> controller
     \<Rightarrow> SalesResponse Cache \<Rightarrow> effect list \<times> SalesResponse Cache"
where
  "part_005_fetchSales direction now reply now' st dc =
     (if \<not> truthy (authToken st) then ([], dc)
      else if \<not> isDateRangeValid st then ([SetError (Some INVALID_RANGE)], dc)
      else fetchSales_body direction (the (authToken st)) now reply now' st dc)"


section \<open>States and responses used in the examples\<close>

text \<open>
  \<open>initial_controller\<close> is the component as it mounts
  (\<^verbatim>\<open>src/components/SalesDashboard.tsx\<close> lines 192--212: every \<open>useState\<close> with its
  initial value); \<open>scenario_controller\<close> is that state once \<open>setAuthToken\<close> has stored a
  token. \<open>scenario_response\<close> is a body of the shape the server sends: one daily total,
  one sale, no page before and the cursor \<open>tok2\<close> after. \<open>scenario_dataCache\<close> is the
  data cache after that response was stored at time 1000 under the key of the
  controller's current filters.
\<close>

definition initial_controller :: controller where
  "initial_controller =
     \<lparr>authToken = None, totalSalesData = [], salesData = [], loading = False, error = None,
      startDate = ''2025-01-01'', endDate = ''2025-01-31'', priceMin = [], email = [], phone = [],
      beforeToken = [], afterToken = [], currentPage = 1, sortBy = ''date'', sortOrder = ''asc''\<rparr>"

definition scenario_response :: SalesResponse where
  "scenario_response =
     \<lparr>results = Some \<lparr>TotalSales = Some [\<lparr>day = ''2025-01-01'', totalSale = 500\<rparr>],
                       Sales = Some [\<lparr>sale_id = ''1'', date = ''2025-01-01T10:00:00Z'', price = 500,
                                     customerEmail = ''a@b.com'', customerPhone = ''+1'', version = 0\<rparr>]\<rparr>,
      pagination = Some \<lparr>before = Some [], after = Some ''tok2''\<rparr>\<rparr>"

definition scenario_controller :: controller where
  "scenario_controller = initial_controller\<lparr>authToken := Some ''tok''\<rparr>"

definition scenario_dataCache :: "SalesResponse Cache" where
  "scenario_dataCache =
     Cache_set 1000 (getCacheKey (filters None scenario_controller)) scenario_response dataCache"


section \<open>Properties of the cache\<close>

lemma Cache_get_hit:
  "cache c key = Some item \<Longrightarrow> now - timestamp item < duration c \<Longrightarrow>
   Cache_get now key c = (Some (data item), c)"
  by (simp add: Cache_get_def)

lemma Cache_get_miss_store:
  "fst (Cache_get now key c) = None \<Longrightarrow> cache (snd (Cache_get now key c)) key = None"
  by (cases "cache c key") (auto simp: Cache_get_def split: if_splits)

lemma Cache_get_duration [simp]: "duration (snd (Cache_get now key c)) = duration c"
  by (simp add: Cache_get_def split: option.splits)

lemma Cache_get_absent:
  "cache c key = None \<Longrightarrow> fst (Cache_get now key c) = None"
  by (simp add: Cache_get_def)

text \<open>
  Claim C7. A value stored with \<open>set(k, v)\<close> at time \<open>t0\<close> is returned by a \<open>get(k)\<close>
  that follows it at any time \<open>t\<close> strictly before \<open>t0 + duration\<close>, and a \<open>get(k)\<close> at
  any time at or after \<open>t0 + duration\<close> returns \<open>null\<close>.
\<close>

theorem Cache_set_get:
  "(t < t0 + duration c \<longrightarrow> fst (Cache_get t k (Cache_set t0 k v c)) = Some v) \<and>
   (t0 + duration c \<le> t \<longrightarrow> fst (Cache_get t k (Cache_set t0 k v c)) = None)"
  by (simp add: Cache_get_def Cache_set_def)

theorem Cache_set_get_witness:
  "(1000 + 1799999 < (1000::int) + duration (new_Cache 1800000 :: string Cache) \<and>
    fst (Cache_get (1000 + 1799999) ''k'' (Cache_set 1000 ''k'' ''v'' (new_Cache 1800000))) = Some ''v'') \<and>
   ((1000::int) + duration (new_Cache 1800000 :: string Cache) \<le> 1000 + 1800000 \<and>
    fst (Cache_get (1000 + 1800000) ''k'' (Cache_set 1000 ''k'' ''v'' (new_Cache 1800000))) = None)"
  using Cache_set_get [of "1000 + 1799999" 1000 "new_Cache 1800000 :: string Cache" "''k''" "''v''"]
    Cache_set_get [of "1000 + 1800000" 1000 "new_Cache 1800000 :: string Cache" "''k''" "''v''"]
  by (simp add: new_Cache_def)

text \<open>
  Claim C8. \<open>has(k)\<close> answers true exactly when \<open>get(k)\<close> returns a value, and leaves the
  cache in the state \<open>get(k)\<close> leaves it in (the same lazy eviction). When a \<open>get(k)\<close>
  finds an entry that has expired, the entry is deleted from the map: whatever the clock
  shows afterwards, \<open>has(k)\<close> is false and \<open>get(k)\<close> is \<open>null\<close>.
\<close>

theorem Cache_has_get:
  "fst (Cache_has t k c) = (fst (Cache_get t k c) \<noteq> None) \<and>
   snd (Cache_has t k c) = snd (Cache_get t k c) \<and>
   (cache c k = Some item \<and> duration c \<le> t - timestamp item \<longrightarrow>
      fst (Cache_get t k c) = None \<and>
      cache (snd (Cache_get t k c)) k = None \<and>
      (\<forall>t'. fst (Cache_has t' k (snd (Cache_get t k c))) = False \<and>
            fst (Cache_get t' k (snd (Cache_get t k c))) = None))"
  by (simp add: Cache_has_def Cache_get_def split: prod.splits)

theorem Cache_has_get_witness:
  "cache (Cache_set 0 ''k'' ''v'' (new_Cache 10)) ''k'' = Some \<lparr>data = ''v'', timestamp = 0\<rparr> \<and>
   duration (Cache_set 0 ''k'' ''v'' (new_Cache 10)) \<le> 10 - timestamp \<lparr>data = ''v'', timestamp = 0\<rparr> \<and>
   fst (Cache_get 10 ''k'' (Cache_set 0 ''k'' ''v'' (new_Cache 10))) = None \<and>
   cache (snd (Cache_get 10 ''k'' (Cache_set 0 ''k'' ''v'' (new_Cache 10)))) ''k'' = None \<and>
   fst (Cache_has 3 ''k'' (snd (Cache_get 10 ''k'' (Cache_set 0 ''k'' ''v'' (new_Cache 10))))) = False \<and>
   fst (Cache_get 3 ''k'' (snd (Cache_get 10 ''k'' (Cache_set 0 ''k'' ''v'' (new_Cache 10))))) = None \<and>
   fst (Cache_has 3 ''k'' (Cache_set 0 ''k'' ''v'' (new_Cache 10))) = True"
  using Cache_has_get [of 10 "''k''" "Cache_set 0 ''k'' ''v'' (new_Cache 10)"
      "\<lparr>data = ''v'', timestamp = 0\<rparr>"]
    Cache_has_get [of 3 "''k''" "Cache_set 0 ''k'' ''v'' (new_Cache 10)"
      "\<lparr>data = ''v'', timestamp = 0\<rparr>"]
  by (simp add: new_Cache_def Cache_set_def Cache_get_def)



section \<open>Properties of the cache key\<close>

text \<open>
  The serialisation can be read back: a quoted string ends at its first unescaped
  quote, and the escapes form a prefix code.
\<close>

lemma of_char_hexDigit: "n < 16 \<Longrightarrow> (of_char (hexDigit n) :: nat) = (if n < 10 then 48 + n else 87 + n)"
  by (simp add: hexDigit_def)

lemma hexDigit_inj:
  assumes "i < 16" "j < 16" "hexDigit i = hexDigit j"
  shows "i = j"
proof -
  have "(of_char (hexDigit i) :: nat) = of_char (hexDigit j)"
    using assms(3) by simp
  then have "(if i < 10 then 48 + i else 87 + i) = (if j < 10 then 48 + j else 87 + j)"
    unfolding of_char_hexDigit [OF assms(1)] of_char_hexDigit [OF assms(2)] .
  then show ?thesis by (simp split: if_splits)
qed

lemma of_char_bound: "(of_char (c::char) :: nat) < 256"
proof -
  have "(of_char c :: nat) mod 256 = of_char c" by (rule of_char_mod_256)
  moreover have "(of_char c :: nat) mod 256 < 256" by simp
  ultimately show ?thesis by simp
qed

lemma div_mod_16_eq:
  fixes n m :: nat
  assumes "n div 16 = m div 16" "n mod 16 = m mod 16"
  shows "n = m"
proof -
  have "n = 16 * (n div 16) + n mod 16" by simp
  also have "\<dots> = 16 * (m div 16) + m mod 16" using assms by simp
  also have "\<dots> = m" by simp
  finally show ?thesis .
qed

lemma UnicodeEscape_append:
  assumes "UnicodeEscape c @ x = UnicodeEscape d @ y"
  shows "c = d \<and> x = y"
proof -
  let ?n = "of_char c :: nat" and ?m = "of_char d :: nat"
  have n: "?n < 256" and m: "?m < 256" by (rule of_char_bound)+
  from assms have hi: "hexDigit (?n div 16 mod 16) = hexDigit (?m div 16 mod 16)"
    and lo: "hexDigit (?n mod 16) = hexDigit (?m mod 16)" and xy: "x = y"
    by (simp_all add: UnicodeEscape_def Let_def)
  have "?n div 16 mod 16 = ?m div 16 mod 16"
    by (rule hexDigit_inj [OF _ _ hi]) simp_all
  moreover have "?n div 16 < 16" "?m div 16 < 16"
    using n m by (simp_all add: less_mult_imp_div_less)
  ultimately have "?n div 16 = ?m div 16" by simp
  moreover have "?n mod 16 = ?m mod 16"
    by (rule hexDigit_inj [OF _ _ lo]) simp_all
  ultimately have "?n = ?m" by (rule div_mod_16_eq)
  then have "c = d" by simp
  with xy show ?thesis by simp
qed

lemma UnicodeEscape_head:
  "UnicodeEscape c @ x = a # b # r \<Longrightarrow> a = CHR 0x5C \<and> b = CHR ''u''"
  by (simp add: UnicodeEscape_def Let_def)

lemma QuoteJSONChar_cases:
  "QuoteJSONChar c = [c] \<and> c \<noteq> CHR 0x5C \<and> c \<noteq> CHR 0x22 \<or>
   (\<exists>e. QuoteJSONChar c = [CHR 0x5C, e] \<and> e \<noteq> CHR ''u'') \<or>
   QuoteJSONChar c = UnicodeEscape c"
  by (simp add: QuoteJSONChar_def)



lemma QuoteJSONChar_short_inj:
  "QuoteJSONChar c = [CHR 0x5C, e] \<Longrightarrow> QuoteJSONChar d = [CHR 0x5C, e] \<Longrightarrow> c = d"
  by (auto simp: QuoteJSONChar_def UnicodeEscape_def Let_def split: if_splits)

lemma QuoteJSONChar_prefix:
  assumes eq: "QuoteJSONChar c @ x = QuoteJSONChar d @ y"
  shows "c = d \<and> x = y"
proof -
  consider (plain) "QuoteJSONChar c = [c]" "c \<noteq> CHR 0x5C" "c \<noteq> CHR 0x22"
    | (short) e where "QuoteJSONChar c = [CHR 0x5C, e]" "e \<noteq> CHR ''u''"
    | (uni) "QuoteJSONChar c = UnicodeEscape c"
    using QuoteJSONChar_cases [of c] by blast
  then show ?thesis
  proof cases
    case plain
    consider (plain') "QuoteJSONChar d = [d]" "d \<noteq> CHR 0x5C" "d \<noteq> CHR 0x22"
      | (short') e' where "QuoteJSONChar d = [CHR 0x5C, e']" "e' \<noteq> CHR ''u''"
      | (uni') "QuoteJSONChar d = UnicodeEscape d"
      using QuoteJSONChar_cases [of d] by blast
    then show ?thesis
    proof cases
      case plain'
      with plain eq show ?thesis by simp
    next
      case short'
      with plain eq show ?thesis by simp
    next
      case uni'
      with plain eq have "UnicodeEscape d @ y = c # x" by simp
      then have "c = CHR 0x5C" by (simp add: UnicodeEscape_def Let_def)
      with plain show ?thesis by simp
    qed
  next
    case short
    consider (plain') "QuoteJSONChar d = [d]" "d \<noteq> CHR 0x5C" "d \<noteq> CHR 0x22"
      | (short') e' where "QuoteJSONChar d = [CHR 0x5C, e']" "e' \<noteq> CHR ''u''"
      | (uni') "QuoteJSONChar d = UnicodeEscape d"
      using QuoteJSONChar_cases [of d] by blast
    then show ?thesis
    proof cases
      case plain'
      with short eq show ?thesis by simp
    next
      case short'
      with short eq have e: "e' = e" and xy: "x = y" by simp_all
      from short(1) short'(1) have "c = d"
        unfolding e by (rule QuoteJSONChar_short_inj)
      with xy show ?thesis by simp
    next
      case uni'
      with short eq have "UnicodeEscape d @ y = CHR 0x5C # e # x" by simp
      then have "e = CHR ''u''" by (simp add: UnicodeEscape_def Let_def)
      with short show ?thesis by simp
    qed
  next
    case uni
    consider (plain') "QuoteJSONChar d = [d]" "d \<noteq> CHR 0x5C" "d \<noteq> CHR 0x22"
      | (short') e' where "QuoteJSONChar d = [CHR 0x5C, e']" "e' \<noteq> CHR ''u''"
      | (uni') "QuoteJSONChar d = UnicodeEscape d"
      using QuoteJSONChar_cases [of d] by blast
    then show ?thesis
    proof cases
      case plain'
      with uni eq have "UnicodeEscape c @ x = d # y" by simp
      then have "d = CHR 0x5C" by (simp add: UnicodeEscape_def Let_def)
      with plain' show ?thesis by simp
    next
      case short'
      with uni eq have "UnicodeEscape c @ x = CHR 0x5C # e' # y" by simp
      then have "e' = CHR ''u''" by (simp add: UnicodeEscape_def Let_def)
      with short' show ?thesis by simp
    next
      case uni'
      with uni eq show ?thesis by (simp add: UnicodeEscape_append)
    qed
  qed
qed

lemma QuoteJSONChar_not_quote: "QuoteJSONChar c @ x \<noteq> CHR 0x22 # y"
  using QuoteJSONChar_cases [of c] by (auto simp: UnicodeEscape_def Let_def)

lemma escape_unique:
  "concat (map QuoteJSONChar a) @ CHR 0x22 # x = concat (map QuoteJSONChar b) @ CHR 0x22 # y
   \<Longrightarrow> a = b \<and> x = y"
proof (induction a arbitrary: b)
  case Nil
  then show ?case
  proof (cases b)
    case Nil
    with Nil.prems show ?thesis by simp
  next
    case (Cons d b')
    with Nil.prems have "QuoteJSONChar d @ (concat (map QuoteJSONChar b') @ CHR 0x22 # y) = CHR 0x22 # x"
      by simp
    then show ?thesis by (simp add: QuoteJSONChar_not_quote)
  qed
next
  case (Cons c a')
  show ?case
  proof (cases b)
    case Nil
    with Cons.prems have "QuoteJSONChar c @ (concat (map QuoteJSONChar a') @ CHR 0x22 # x) = CHR 0x22 # y"
      by simp
    then show ?thesis by (simp add: QuoteJSONChar_not_quote)
  next
    case (Cons d b')
    with Cons.prems have "QuoteJSONChar c @ (concat (map QuoteJSONChar a') @ CHR 0x22 # x)
        = QuoteJSONChar d @ (concat (map QuoteJSONChar b') @ CHR 0x22 # y)"
      by simp
    then have cd: "c = d" and rest: "concat (map QuoteJSONChar a') @ CHR 0x22 # x
        = concat (map QuoteJSONChar b') @ CHR 0x22 # y"
      by (auto dest: QuoteJSONChar_prefix)
    from Cons.IH [OF rest] cd Cons show ?thesis by simp
  qed
qed

lemma QuoteJSONString_unique:
  "QuoteJSONString a @ x = QuoteJSONString b @ y \<Longrightarrow> a = b \<and> x = y"
  using escape_unique [of a x b y] by (simp add: QuoteJSONString_def)

lemma field_name_inj: "field_name k = field_name k' \<Longrightarrow> k = k'"
  by (cases k; cases k'; simp)

lemma SerializeJSONProperty_unique:
  assumes "SerializeJSONProperty p @ x = SerializeJSONProperty q @ y"
  shows "p = q \<and> x = y"
proof -
  from assms have "QuoteJSONString (field_name (fst p)) @ (CHR '':'' # QuoteJSONString (snd p) @ x)
      = QuoteJSONString (field_name (fst q)) @ (CHR '':'' # QuoteJSONString (snd q) @ y)"
    by (simp add: SerializeJSONProperty_def)
  then have k: "field_name (fst p) = field_name (fst q)"
    and r: "QuoteJSONString (snd p) @ x = QuoteJSONString (snd q) @ y"
    by (auto dest: QuoteJSONString_unique)
  from r have "snd p = snd q" "x = y" by (auto dest: QuoteJSONString_unique)
  with field_name_inj [OF k] show ?thesis by (simp add: prod_eq_iff)
qed

lemma SerializeJSONProperty_head: "\<exists>r. SerializeJSONProperty p = CHR 0x22 # r"
  by (simp add: SerializeJSONProperty_def QuoteJSONString_def)

lemma join_comma_Cons:
  "join_comma (x # xs) = x @ (if xs = [] then [] else CHR '','' # join_comma xs)"
  by (cases xs) simp_all

lemma members_unique:
  "join_comma (map SerializeJSONProperty p) @ [CHR ''}'']
     = join_comma (map SerializeJSONProperty q) @ [CHR ''}''] \<Longrightarrow> p = q"
proof (induction p arbitrary: q)
  case Nil
  show ?case
  proof (cases q)
    case Nil
    then show ?thesis by simp
  next
    case (Cons m ms)
    obtain r where "SerializeJSONProperty m = CHR 0x22 # r"
      using SerializeJSONProperty_head by blast
    with Nil Cons show ?thesis by (simp add: join_comma_Cons)
  qed
next
  case (Cons m p')
  show ?case
  proof (cases q)
    case Nil
    obtain r where "SerializeJSONProperty m = CHR 0x22 # r"
      using SerializeJSONProperty_head by blast
    with Cons.prems Nil show ?thesis by (simp add: join_comma_Cons)
  next
    case (Cons m' q')
    let ?tl = "\<lambda>xs. (if xs = [] then [] else CHR '','' # join_comma (map SerializeJSONProperty xs)) @ [CHR ''}'']"
    from Cons.prems Cons
    have "SerializeJSONProperty m @ ?tl p' = SerializeJSONProperty m' @ ?tl q'"
      by (simp add: join_comma_Cons)
    then have "m = m' \<and> ?tl p' = ?tl q'"
      by (rule SerializeJSONProperty_unique)
    then have mm: "m = m'" and tl: "?tl p' = ?tl q'"
      by blast+
    have "p' = q'"
    proof (cases "p' = []")
      case True
      with tl show ?thesis by (simp split: if_splits)
    next
      case False
      with tl have "q' \<noteq> []" by (auto split: if_splits)
      with False tl have "join_comma (map SerializeJSONProperty p') @ [CHR ''}'']
          = join_comma (map SerializeJSONProperty q') @ [CHR ''}'']" by simp
      then show ?thesis by (rule Cons.IH)
    qed
    with mm Cons show ?thesis by simp
  qed
qed

lemma JSON_stringify_inj: "JSON_stringify p = JSON_stringify q \<Longrightarrow> p = q"
  by (simp add: JSON_stringify_def members_unique)

text \<open>
  Claim C1, as the code has it. \<open>getCacheKey\<close> is deterministic and injective on objects
  taken with their insertion order: two objects get the same key exactly when they have
  the same entries in the same order. So two objects that differ in a field (in its value
  or in its presence) get different keys. Insertion order is part of the key: the claim's
  "regardless of the order in which the fields were inserted" does not hold.
\<close>

theorem getCacheKey_inj:
  "(getCacheKey p = getCacheKey q) = (p = q) \<and>
   (map_of p \<noteq> map_of q \<longrightarrow> getCacheKey p \<noteq> getCacheKey q)"
  by (auto simp: getCacheKey_def dest: JSON_stringify_inj)

theorem getCacheKey_inj_witness:
  "map_of [(StartDate, ''2025-01-01''), (EndDate, ''2025-01-31'')]
     \<noteq> map_of [(StartDate, ''2025-01-01''), (EndDate, ''2025-02-28'')] \<and>
   getCacheKey [(StartDate, ''2025-01-01''), (EndDate, ''2025-01-31'')]
     \<noteq> getCacheKey [(StartDate, ''2025-01-01''), (EndDate, ''2025-02-28'')]"
proof -
  have "map_of [(StartDate, ''2025-01-01''), (EndDate, ''2025-01-31'')] EndDate
      \<noteq> map_of [(StartDate, ''2025-01-01''), (EndDate, ''2025-02-28'')] EndDate"
    by simp
  then have ne: "map_of [(StartDate, ''2025-01-01''), (EndDate, ''2025-01-31'')]
      \<noteq> map_of [(StartDate, ''2025-01-01''), (EndDate, ''2025-02-28'')]"
    by metis
  with getCacheKey_inj [of "[(StartDate, ''2025-01-01''), (EndDate, ''2025-01-31'')]"
      "[(StartDate, ''2025-01-01''), (EndDate, ''2025-02-28'')]"]
  show ?thesis by blast
qed

text \<open>
  Claim C1 as stated fails: the two objects below have the same fields with the same
  values, inserted in a different order, and their keys differ.
\<close>

theorem getCacheKey_order_counterexample:
  "map_of [(StartDate, ''2025-01-01''), (EndDate, ''2025-01-31'')]
     = map_of [(EndDate, ''2025-01-31''), (StartDate, ''2025-01-01'')] \<and>
   getCacheKey [(StartDate, ''2025-01-01''), (EndDate, ''2025-01-31'')]
     \<noteq> getCacheKey [(EndDate, ''2025-01-31''), (StartDate, ''2025-01-01'')]"
proof
  show "map_of [(StartDate, ''2025-01-01''), (EndDate, ''2025-01-31'')]
     = map_of [(EndDate, ''2025-01-31''), (StartDate, ''2025-01-01'')]"
    by (rule ext) simp
  show "getCacheKey [(StartDate, ''2025-01-01''), (EndDate, ''2025-01-31'')]
     \<noteq> getCacheKey [(EndDate, ''2025-01-31''), (StartDate, ''2025-01-01'')]"
    by (simp add: getCacheKey_def JSON_stringify_def SerializeJSONProperty_def QuoteJSONString_def
        QuoteJSONChar_def)
qed


section \<open>Properties of the token cache\<close>

lemma truthy_simps [simp]:
  "truthy None = False" "truthy (Some s) = (s \<noteq> [])"
  by (simp_all add: truthy_def)

lemma str_or_simps [simp]:
  "str_or None d = d" "str_or (Some s) [] = s"
  by (simp_all add: str_or_def)

lemma arr_or_simps [simp]:
  "arr_or None d = d" "arr_or (Some xs) d = xs"
  by (simp_all add: arr_or_def)

lemma getAuthToken_fresh:
  assumes "cache tc TOKEN_CACHE_KEY = Some item" "now - timestamp item < duration tc" "data item \<noteq> []"
  shows "getAuthToken now reply now' tc = (Inr (data item), tc, 0)"
  using assms by (simp add: getAuthToken_def Cache_get_def)

lemma getAuthToken_expired_calls:
  assumes "cache tc TOKEN_CACHE_KEY = Some item" "duration tc \<le> now - timestamp item"
  shows "snd (snd (getAuthToken now reply now' tc)) = 1"
  using assms by (simp add: getAuthToken_def Cache_get_def split: http_reply.splits option.splits)

lemma getAuthToken_expired_ok:
  assumes "cache tc TOKEN_CACHE_KEY = Some item" "duration tc \<le> now - timestamp item"
  shows "fst (getAuthToken now (OkJson (Some token)) now' tc) = Inr token"
    and "cache (fst (snd (getAuthToken now (OkJson (Some token)) now' tc))) TOKEN_CACHE_KEY
           = Some \<lparr>data = token, timestamp = now'\<rparr>"
  using assms by (simp_all add: getAuthToken_def Cache_get_def Cache_set_def)

text \<open>
  Claim C6, as the code has it. When the token cache holds a non-empty token stored less
  than \<open>duration\<close> (60 minutes for \<open>tokenCache\<close>) before the call, \<open>getAuthToken\<close> returns
  it, sends no request and leaves the cache as it is. When the stored token is at least
  \<open>duration\<close> old, \<open>getAuthToken\<close> sends exactly one request to \<open>/getAuthorize\<close>, and when
  that request answers with a token, the token is returned and replaces the cached one,
  stamped with the time of its arrival.
\<close>

theorem getAuthToken_ttl:
  "(cache tc TOKEN_CACHE_KEY = Some item \<and> now - timestamp item < duration tc \<and> data item \<noteq> []
      \<longrightarrow> getAuthToken now reply now' tc = (Inr (data item), tc, 0)) \<and>
   (cache tc TOKEN_CACHE_KEY = Some item \<and> duration tc \<le> now - timestamp item
      \<longrightarrow> snd (snd (getAuthToken now reply now' tc)) = 1 \<and>
          (\<forall>token. reply = OkJson (Some token) \<longrightarrow>
             fst (getAuthToken now reply now' tc) = Inr token \<and>
             cache (fst (snd (getAuthToken now reply now' tc))) TOKEN_CACHE_KEY
               = Some \<lparr>data = token, timestamp = now'\<rparr>))"
  using getAuthToken_fresh [of tc item now reply now']
    getAuthToken_expired_calls [of tc item now reply now']
    getAuthToken_expired_ok [of tc item now _ now']
  by blast

theorem getAuthToken_ttl_witness:
  "(cache (Cache_set 0 TOKEN_CACHE_KEY ''tok1'' tokenCache) TOKEN_CACHE_KEY
       = Some \<lparr>data = ''tok1'', timestamp = 0\<rparr> \<and>
    30 * 60 * 1000 - timestamp \<lparr>data = ''tok1'', timestamp = 0\<rparr>
       < duration (Cache_set 0 TOKEN_CACHE_KEY ''tok1'' tokenCache) \<and>
    data \<lparr>data = ''tok1'', timestamp = 0\<rparr> \<noteq> [] \<and>
    getAuthToken (30 * 60 * 1000) (OkJson (Some ''tok2'')) (30 * 60 * 1000 + 200)
        (Cache_set 0 TOKEN_CACHE_KEY ''tok1'' tokenCache)
      = (Inr ''tok1'', Cache_set 0 TOKEN_CACHE_KEY ''tok1'' tokenCache, 0)) \<and>
   (duration (Cache_set 0 TOKEN_CACHE_KEY ''tok1'' tokenCache)
       \<le> 61 * 60 * 1000 - timestamp \<lparr>data = ''tok1'', timestamp = 0\<rparr> \<and>
    snd (snd (getAuthToken (61 * 60 * 1000) (OkJson (Some ''tok2'')) (61 * 60 * 1000 + 200)
        (Cache_set 0 TOKEN_CACHE_KEY ''tok1'' tokenCache))) = 1 \<and>
    fst (getAuthToken (61 * 60 * 1000) (OkJson (Some ''tok2'')) (61 * 60 * 1000 + 200)
        (Cache_set 0 TOKEN_CACHE_KEY ''tok1'' tokenCache)) = Inr ''tok2'' \<and>
    cache (fst (snd (getAuthToken (61 * 60 * 1000) (OkJson (Some ''tok2'')) (61 * 60 * 1000 + 200)
        (Cache_set 0 TOKEN_CACHE_KEY ''tok1'' tokenCache)))) TOKEN_CACHE_KEY
      = Some \<lparr>data = ''tok2'', timestamp = 61 * 60 * 1000 + 200\<rparr>)"
proof -
  let ?tc = "Cache_set 0 TOKEN_CACHE_KEY ''tok1'' tokenCache"
  let ?item = "\<lparr>data = ''tok1'', timestamp = 0\<rparr> :: string CacheItem"
  have c: "cache ?tc TOKEN_CACHE_KEY = Some ?item"
    by (simp add: Cache_set_def)
  have d: "duration ?tc = 3600000"
    by (simp add: Cache_set_def tokenCache_def new_Cache_def)
  have fresh: "30 * 60 * 1000 - timestamp ?item < duration ?tc" and ne: "data ?item \<noteq> []"
    and old: "duration ?tc \<le> 61 * 60 * 1000 - timestamp ?item"
    by (simp_all add: d)
  from getAuthToken_ttl [of ?tc ?item "30 * 60 * 1000" "OkJson (Some ''tok2'')" "30 * 60 * 1000 + 200"]
    getAuthToken_ttl [of ?tc ?item "61 * 60 * 1000" "OkJson (Some ''tok2'')" "61 * 60 * 1000 + 200"]
    c fresh ne old
  show ?thesis by simp
qed

text \<open>
  Claim C6 as stated fails in two places. \<open>if (cachedToken)\<close> tests truthiness, so an
  empty token stored 30 minutes ago is not used: one request is sent. And a token that
  is 61 minutes old is deleted by \<open>tokenCache.get\<close>; when the one request then fails,
  nothing replaces it and the cache holds no token.
\<close>

theorem getAuthToken_ttl_counterexample:
  "cache (Cache_set 0 TOKEN_CACHE_KEY [] tokenCache) TOKEN_CACHE_KEY
       = Some \<lparr>data = [], timestamp = 0\<rparr> \<and>
   (30 * 60 * 1000 :: int) - 0 < duration (Cache_set 0 TOKEN_CACHE_KEY [] tokenCache) \<and>
   snd (snd (getAuthToken (30 * 60 * 1000) (OkJson (Some ''tok2'')) (30 * 60 * 1000 + 200)
        (Cache_set 0 TOKEN_CACHE_KEY [] tokenCache))) = 1 \<and>
   (61 * 60 * 1000 :: int) - 0 \<ge> duration (Cache_set 0 TOKEN_CACHE_KEY ''tok1'' tokenCache) \<and>
   snd (snd (getAuthToken (61 * 60 * 1000) (NotOk 503 ''down'') (61 * 60 * 1000 + 200)
        (Cache_set 0 TOKEN_CACHE_KEY ''tok1'' tokenCache))) = 1 \<and>
   cache (fst (snd (getAuthToken (61 * 60 * 1000) (NotOk 503 ''down'') (61 * 60 * 1000 + 200)
        (Cache_set 0 TOKEN_CACHE_KEY ''tok1'' tokenCache)))) TOKEN_CACHE_KEY = None"
  by (simp add: getAuthToken_def Cache_get_def Cache_set_def tokenCache_def new_Cache_def)


section \<open>Properties of \<open>fetchSales\<close>\<close>

lemma fetchSales_body_hit:
  assumes "cache dc (getCacheKey (filters direction st)) = Some item"
    and "now - timestamp item < duration dc"
  shows "fetchSales_body direction token now reply now' st dc =
     ([SetLoading True, SetError None,
       SetTotalSalesData (arr_or (Option.bind (results (data item)) TotalSales) []),
       SetSalesData (arr_or (Option.bind (results (data item)) Sales) []),
       SetBeforeToken (str_or (Option.bind (pagination (data item)) before) []),
       SetAfterToken (str_or (Option.bind (pagination (data item)) after) []),
       SetLoading False], dc)"
  using assms by (simp add: fetchSales_body_def Cache_get_hit)

lemma fetchSales_body_failed:
  assumes "fst (Cache_get now (getCacheKey (filters direction st)) dc) = None"
    and "reply = Rejected \<or> (\<exists>status text. reply = NotOk status text) \<or> reply = OkJson None
         \<or> (\<exists>d. reply = OkJson (Some d) \<and> results d = None)"
  shows "fst (fetchSales_body direction token now reply now' st dc) =
     [SetLoading True, SetError None,
      Fetch token (fetchSalesData_searchParams (filters direction st)),
      SetError (Some LOAD_FAILED), SetLoading False]"
proof -
  obtain dc1 where g: "Cache_get now (getCacheKey (filters direction st)) dc = (None, dc1)"
    using assms(1) by (cases "Cache_get now (getCacheKey (filters direction st)) dc") simp
  from assms(2) show ?thesis
    by (auto simp: fetchSales_body_def g fetchSalesData_def)
qed

lemma fetchSales_body_ok:
  assumes "fst (Cache_get now (getCacheKey (filters direction st)) dc) = None"
    and "results d = Some r"
  shows "fetchSales_body direction token now (OkJson (Some d)) now' st dc =
     ([SetLoading True, SetError None,
       Fetch token (fetchSalesData_searchParams (filters direction st)),
       SetTotalSalesData (arr_or (TotalSales r) []),
       SetSalesData (arr_or (Sales r) []),
       SetBeforeToken (str_or (Option.bind (pagination d) before) []),
       SetAfterToken (str_or (Option.bind (pagination d) after) []),
       SetLoading False],
      Cache_set now' (getCacheKey (filters direction st)) d
        (snd (Cache_get now (getCacheKey (filters direction st)) dc)))"
proof -
  obtain dc1 where g: "Cache_get now (getCacheKey (filters direction st)) dc = (None, dc1)"
    using assms(1) by (cases "Cache_get now (getCacheKey (filters direction st)) dc") simp
  from assms(2) show ?thesis
    by (simp add: fetchSales_body_def g fetchSalesData_def)
qed

lemma fetchSales_token:
  "truthy (authToken st) \<Longrightarrow>
   fetchSales direction now reply now' st dc =
     fetchSales_body direction (the (authToken st)) now reply now' st dc"
  by (simp add: fetchSales_def)

lemma fetchSales_body_requests:
  "requests (fst (fetchSales_body direction token now reply now' st dc)) = [] \<or>
   requests (fst (fetchSales_body direction token now reply now' st dc))
     = [(token, fetchSalesData_searchParams (filters direction st))]"
  by (simp add: fetchSales_body_def fetchSalesData_def Let_def
      split: prod.splits option.splits http_reply.splits sum.splits)

lemma filters_authToken [simp]: "filters direction (st\<lparr>authToken := t\<rparr>) = filters direction st"
  by (simp add: filters_def)

lemma dataCache_miss: "fst (Cache_get now key dataCache) = None"
  by (simp add: Cache_get_def dataCache_def new_Cache_def)

lemma fetchSales_miss_rendered:
  assumes "truthy (authToken st)"
    and "fst (Cache_get now (getCacheKey (filters direction st)) dc) = None"
  shows "map loading (rendered st (fst (fetchSales direction now reply now' st dc))) = [True, False]"
proof -
  obtain dc1 where g: "Cache_get now (getCacheKey (filters direction st)) dc = (None, dc1)"
    using assms(2) by (cases "Cache_get now (getCacheKey (filters direction st)) dc") simp
  show ?thesis
    by (simp add: fetchSales_token [OF assms(1)] fetchSales_body_def g fetchSalesData_def
        split: http_reply.splits option.splits)
qed

text \<open>
  Claim C2, for a controller that holds a token. When the data cache holds an unexpired
  entry under the key of the current filters, \<open>fetchSales\<close> sends no request, leaves the
  data cache as it is, and replaces totals, rows and both cursors from the cached
  response (an absent member giving \<open>[]\<close> or \<open>""\<close>). The component is rendered in one
  state from the call on, the one at the return, and the loading flag is false in it: a
  flag that was false before the call is false throughout. (When the cache misses, the
  flag is true in the state rendered at the \<open>await\<close>: \<open>fetchSales_miss_rendered\<close>.)
\<close>

theorem fetchSales_cache_hit:
  assumes "truthy (authToken st)"
    and "cache dc (getCacheKey (filters direction st)) = Some item"
    and "now - timestamp item < duration dc"
  shows "requests (fst (fetchSales direction now reply now' st dc)) = [] \<and>
    snd (fetchSales direction now reply now' st dc) = dc \<and>
    map loading (rendered st (fst (fetchSales direction now reply now' st dc))) = [False] \<and>
    (loading st = False \<longrightarrow>
       (\<forall>s \<in> set (st # rendered st (fst (fetchSales direction now reply now' st dc))).
          loading s = False)) \<and>
    totalSalesData (commit st (fst (fetchSales direction now reply now' st dc)))
      = arr_or (Option.bind (results (data item)) TotalSales) [] \<and>
    salesData (commit st (fst (fetchSales direction now reply now' st dc)))
      = arr_or (Option.bind (results (data item)) Sales) [] \<and>
    beforeToken (commit st (fst (fetchSales direction now reply now' st dc)))
      = str_or (Option.bind (pagination (data item)) before) [] \<and>
    afterToken (commit st (fst (fetchSales direction now reply now' st dc)))
      = str_or (Option.bind (pagination (data item)) after) [] \<and>
    loading (commit st (fst (fetchSales direction now reply now' st dc))) = False"
  by (simp add: fetchSales_token [OF assms(1)] fetchSales_body_hit [OF assms(2,3)] commit_def)

theorem fetchSales_cache_hit_witness:
  "truthy (authToken scenario_controller) \<and>
   cache scenario_dataCache (getCacheKey (filters None scenario_controller))
     = Some \<lparr>data = scenario_response, timestamp = 1000\<rparr> \<and>
   2000 - timestamp \<lparr>data = scenario_response, timestamp = 1000\<rparr> < duration scenario_dataCache \<and>
   requests (fst (fetchSales None 2000 Rejected 2300 scenario_controller scenario_dataCache)) = [] \<and>
   snd (fetchSales None 2000 Rejected 2300 scenario_controller scenario_dataCache) = scenario_dataCache \<and>
   loading scenario_controller = False \<and>
   map loading (scenario_controller # rendered scenario_controller
       (fst (fetchSales None 2000 Rejected 2300 scenario_controller scenario_dataCache)))
     = [False, False] \<and>
   totalSalesData (commit scenario_controller
       (fst (fetchSales None 2000 Rejected 2300 scenario_controller scenario_dataCache)))
     = [\<lparr>day = ''2025-01-01'', totalSale = 500\<rparr>] \<and>
   salesData (commit scenario_controller
       (fst (fetchSales None 2000 Rejected 2300 scenario_controller scenario_dataCache)))
     = [\<lparr>sale_id = ''1'', date = ''2025-01-01T10:00:00Z'', price = 500,
         customerEmail = ''a@b.com'', customerPhone = ''+1'', version = 0\<rparr>] \<and>
   beforeToken (commit scenario_controller
       (fst (fetchSales None 2000 Rejected 2300 scenario_controller scenario_dataCache))) = [] \<and>
   afterToken (commit scenario_controller
       (fst (fetchSales None 2000 Rejected 2300 scenario_controller scenario_dataCache))) = ''tok2'' \<and>
   loading (commit scenario_controller
       (fst (fetchSales None 2000 Rejected 2300 scenario_controller scenario_dataCache))) = False"
proof -
  let ?item = "\<lparr>data = scenario_response, timestamp = 1000\<rparr>"
  have t: "truthy (authToken scenario_controller)"
    by (simp add: scenario_controller_def)
  have c: "cache scenario_dataCache (getCacheKey (filters None scenario_controller)) = Some ?item"
    by (simp add: scenario_dataCache_def Cache_set_def)
  have f: "2000 - timestamp ?item < duration scenario_dataCache"
    by (simp add: scenario_dataCache_def Cache_set_def dataCache_def new_Cache_def)
  have l: "loading scenario_controller = False"
    by (simp add: scenario_controller_def initial_controller_def)
  from fetchSales_cache_hit [OF t c f, of Rejected 2300] t c f l
  show ?thesis by (simp add: scenario_response_def)
qed

text \<open>
  Claim C2 as stated fails for a controller without a token. The component as it mounts
  has none; with the entry for its filters in the cache and unexpired, \<open>fetchSales\<close>
  returns at its first line: no setter is called, and totals and cursor stay empty while
  the cached response has one total and the cursor \<open>tok2\<close>.
\<close>

theorem fetchSales_cache_hit_counterexample:
  "cache scenario_dataCache (getCacheKey (filters None initial_controller))
     = Some \<lparr>data = scenario_response, timestamp = 1000\<rparr> \<and>
   (2000 :: int) - 1000 < duration scenario_dataCache \<and>
   authToken initial_controller = None \<and>
   fetchSales None 2000 Rejected 2300 initial_controller scenario_dataCache
     = ([], scenario_dataCache) \<and>
   arr_or (Option.bind (results scenario_response) TotalSales) []
     = [\<lparr>day = ''2025-01-01'', totalSale = 500\<rparr>] \<and>
   totalSalesData (commit initial_controller
       (fst (fetchSales None 2000 Rejected 2300 initial_controller scenario_dataCache))) = [] \<and>
   str_or (Option.bind (pagination scenario_response) after) [] = ''tok2'' \<and>
   afterToken (commit initial_controller
       (fst (fetchSales None 2000 Rejected 2300 initial_controller scenario_dataCache))) = []"
proof -
  have c: "cache scenario_dataCache (getCacheKey (filters None initial_controller))
     = Some \<lparr>data = scenario_response, timestamp = 1000\<rparr>"
    by (simp add: scenario_dataCache_def scenario_controller_def Cache_set_def)
  have f: "(2000 :: int) - 1000 < duration scenario_dataCache"
    by (simp add: scenario_dataCache_def Cache_set_def dataCache_def new_Cache_def)
  have n: "authToken initial_controller = None"
    by (simp add: initial_controller_def)
  have e: "fetchSales None 2000 Rejected 2300 initial_controller scenario_dataCache
     = ([], scenario_dataCache)"
    by (simp add: fetchSales_def n)
  have r: "arr_or (Option.bind (results scenario_response) TotalSales) []
     = [\<lparr>day = ''2025-01-01'', totalSale = 500\<rparr>]"
    and a: "str_or (Option.bind (pagination scenario_response) after) [] = ''tok2''"
    by (simp_all add: scenario_response_def)
  have d: "totalSalesData (commit initial_controller
       (fst (fetchSales None 2000 Rejected 2300 initial_controller scenario_dataCache))) = []"
    and d': "afterToken (commit initial_controller
       (fst (fetchSales None 2000 Rejected 2300 initial_controller scenario_dataCache))) = []"
    unfolding e by (simp_all add: commit_def initial_controller_def)
  from c f n e r d a d' show ?thesis by blast
qed

text \<open>
  Claim C5. When the controller holds a token, the cache misses and the request fails
  (the promise rejects, the status is not ok, the body is \<open>null\<close>, or the body has no
  \<open>results\<close>), exactly one request was sent, and afterwards totals, rows and both cursors
  are what they were, the error message is set and the loading flag is false.
\<close>

theorem fetchSales_failure_keeps_data:
  assumes "truthy (authToken st)"
    and "fst (Cache_get now (getCacheKey (filters direction st)) dc) = None"
    and "reply = Rejected \<or> (\<exists>status text. reply = NotOk status text) \<or> reply = OkJson None
         \<or> (\<exists>d. reply = OkJson (Some d) \<and> results d = None)"
  shows "length (requests (fst (fetchSales direction now reply now' st dc))) = 1 \<and>
    totalSalesData (commit st (fst (fetchSales direction now reply now' st dc))) = totalSalesData st \<and>
    salesData (commit st (fst (fetchSales direction now reply now' st dc))) = salesData st \<and>
    beforeToken (commit st (fst (fetchSales direction now reply now' st dc))) = beforeToken st \<and>
    afterToken (commit st (fst (fetchSales direction now reply now' st dc))) = afterToken st \<and>
    error (commit st (fst (fetchSales direction now reply now' st dc))) = Some LOAD_FAILED \<and>
    loading (commit st (fst (fetchSales direction now reply now' st dc))) = False"
  by (simp add: fetchSales_token [OF assms(1)] fetchSales_body_failed [OF assms(2,3)] commit_def)

theorem fetchSales_failure_keeps_data_witness:
  "truthy (authToken (scenario_controller\<lparr>totalSalesData := [\<lparr>day = ''2025-01-01'', totalSale = 500\<rparr>],
      afterToken := ''tok2''\<rparr>)) \<and>
   fst (Cache_get 0 (getCacheKey (filters (Some Next)
      (scenario_controller\<lparr>totalSalesData := [\<lparr>day = ''2025-01-01'', totalSale = 500\<rparr>],
        afterToken := ''tok2''\<rparr>))) dataCache) = None \<and>
   length (requests (fst (fetchSales (Some Next) 0 (NotOk 500 ''boom'') 200
      (scenario_controller\<lparr>totalSalesData := [\<lparr>day = ''2025-01-01'', totalSale = 500\<rparr>],
        afterToken := ''tok2''\<rparr>) dataCache))) = 1 \<and>
   totalSalesData (commit (scenario_controller\<lparr>totalSalesData := [\<lparr>day = ''2025-01-01'', totalSale = 500\<rparr>],
        afterToken := ''tok2''\<rparr>)
     (fst (fetchSales (Some Next) 0 (NotOk 500 ''boom'') 200
      (scenario_controller\<lparr>totalSalesData := [\<lparr>day = ''2025-01-01'', totalSale = 500\<rparr>],
        afterToken := ''tok2''\<rparr>) dataCache))) = [\<lparr>day = ''2025-01-01'', totalSale = 500\<rparr>] \<and>
   afterToken (commit (scenario_controller\<lparr>totalSalesData := [\<lparr>day = ''2025-01-01'', totalSale = 500\<rparr>],
        afterToken := ''tok2''\<rparr>)
     (fst (fetchSales (Some Next) 0 (NotOk 500 ''boom'') 200
      (scenario_controller\<lparr>totalSalesData := [\<lparr>day = ''2025-01-01'', totalSale = 500\<rparr>],
        afterToken := ''tok2''\<rparr>) dataCache))) = ''tok2'' \<and>
   error (commit (scenario_controller\<lparr>totalSalesData := [\<lparr>day = ''2025-01-01'', totalSale = 500\<rparr>],
        afterToken := ''tok2''\<rparr>)
     (fst (fetchSales (Some Next) 0 (NotOk 500 ''boom'') 200
      (scenario_controller\<lparr>totalSalesData := [\<lparr>day = ''2025-01-01'', totalSale = 500\<rparr>],
        afterToken := ''tok2''\<rparr>) dataCache))) = Some LOAD_FAILED \<and>
   loading (commit (scenario_controller\<lparr>totalSalesData := [\<lparr>day = ''2025-01-01'', totalSale = 500\<rparr>],
        afterToken := ''tok2''\<rparr>)
     (fst (fetchSales (Some Next) 0 (NotOk 500 ''boom'') 200
      (scenario_controller\<lparr>totalSalesData := [\<lparr>day = ''2025-01-01'', totalSale = 500\<rparr>],
        afterToken := ''tok2''\<rparr>) dataCache))) = False"
proof -
  let ?st = "scenario_controller\<lparr>totalSalesData := [\<lparr>day = ''2025-01-01'', totalSale = 500\<rparr>],
        afterToken := ''tok2''\<rparr>"
  have t: "truthy (authToken ?st)"
    by (simp add: scenario_controller_def)
  have m: "fst (Cache_get 0 (getCacheKey (filters (Some Next) ?st)) dataCache) = None"
    by (rule dataCache_miss)
  have r: "NotOk 500 ''boom'' = Rejected \<or> (\<exists>status text. NotOk 500 ''boom'' = NotOk status text)
      \<or> NotOk 500 ''boom'' = OkJson None
      \<or> (\<exists>d. NotOk 500 ''boom'' = OkJson (Some d) \<and> results d = None)"
    by simp
  from fetchSales_failure_keeps_data [OF t m r, of 200] t m
  show ?thesis by simp
qed

text \<open>
  Claim C10. For a response that arrives with status ok and a JSON object as its body
  (token held, cache missed): when \<open>results\<close> is present no error is set, and totals,
  rows and cursors are taken from the response, a missing \<open>TotalSales\<close>, \<open>Sales\<close>,
  \<open>pagination\<close>, \<open>before\<close> or \<open>after\<close> giving \<open>[]\<close> or \<open>""\<close>; when \<open>results\<close> is absent
  the error message is set and totals, rows and cursors are what they were.
\<close>

theorem fetchSales_defaults:
  assumes "truthy (authToken st)"
    and "fst (Cache_get now (getCacheKey (filters direction st)) dc) = None"
  shows
   "(results d = Some r \<longrightarrow>
      error (commit st (fst (fetchSales direction now (OkJson (Some d)) now' st dc))) = None \<and>
      loading (commit st (fst (fetchSales direction now (OkJson (Some d)) now' st dc))) = False \<and>
      totalSalesData (commit st (fst (fetchSales direction now (OkJson (Some d)) now' st dc)))
        = (case TotalSales r of None \<Rightarrow> [] | Some ts \<Rightarrow> ts) \<and>
      salesData (commit st (fst (fetchSales direction now (OkJson (Some d)) now' st dc)))
        = (case Sales r of None \<Rightarrow> [] | Some ss \<Rightarrow> ss) \<and>
      beforeToken (commit st (fst (fetchSales direction now (OkJson (Some d)) now' st dc)))
        = (case pagination d of None \<Rightarrow> []
           | Some p \<Rightarrow> (case before p of None \<Rightarrow> [] | Some b \<Rightarrow> b)) \<and>
      afterToken (commit st (fst (fetchSales direction now (OkJson (Some d)) now' st dc)))
        = (case pagination d of None \<Rightarrow> []
           | Some p \<Rightarrow> (case after p of None \<Rightarrow> [] | Some a \<Rightarrow> a))) \<and>
    (results d = None \<longrightarrow>
      error (commit st (fst (fetchSales direction now (OkJson (Some d)) now' st dc))) = Some LOAD_FAILED \<and>
      loading (commit st (fst (fetchSales direction now (OkJson (Some d)) now' st dc))) = False \<and>
      totalSalesData (commit st (fst (fetchSales direction now (OkJson (Some d)) now' st dc)))
        = totalSalesData st \<and>
      salesData (commit st (fst (fetchSales direction now (OkJson (Some d)) now' st dc)))
        = salesData st \<and>
      beforeToken (commit st (fst (fetchSales direction now (OkJson (Some d)) now' st dc)))
        = beforeToken st \<and>
      afterToken (commit st (fst (fetchSales direction now (OkJson (Some d)) now' st dc)))
        = afterToken st)"
proof (intro conjI impI)
  assume r: "results d = Some r"
  note ok = fetchSales_token [OF assms(1)] fetchSales_body_ok [OF assms(2) r] commit_def
  show "error (commit st (fst (fetchSales direction now (OkJson (Some d)) now' st dc))) = None"
    by (simp add: ok)
  show "loading (commit st (fst (fetchSales direction now (OkJson (Some d)) now' st dc))) = False"
    by (simp add: ok)
  show "totalSalesData (commit st (fst (fetchSales direction now (OkJson (Some d)) now' st dc)))
        = (case TotalSales r of None \<Rightarrow> [] | Some ts \<Rightarrow> ts)"
    by (simp add: ok split: option.splits)
  show "salesData (commit st (fst (fetchSales direction now (OkJson (Some d)) now' st dc)))
        = (case Sales r of None \<Rightarrow> [] | Some ss \<Rightarrow> ss)"
    by (simp add: ok split: option.splits)
  show "beforeToken (commit st (fst (fetchSales direction now (OkJson (Some d)) now' st dc)))
        = (case pagination d of None \<Rightarrow> []
           | Some p \<Rightarrow> (case before p of None \<Rightarrow> [] | Some b \<Rightarrow> b))"
    by (simp add: ok split: option.splits)
  show "afterToken (commit st (fst (fetchSales direction now (OkJson (Some d)) now' st dc)))
        = (case pagination d of None \<Rightarrow> []
           | Some p \<Rightarrow> (case after p of None \<Rightarrow> [] | Some a \<Rightarrow> a))"
    by (simp add: ok split: option.splits)
next
  assume r: "results d = None"
  then have "OkJson (Some d) = Rejected \<or> (\<exists>status text. OkJson (Some d) = NotOk status text)
      \<or> OkJson (Some d) = OkJson None \<or> (\<exists>d'. OkJson (Some d) = OkJson (Some d') \<and> results d' = None)"
    by simp
  note bad = fetchSales_token [OF assms(1)] fetchSales_body_failed [OF assms(2) this] commit_def
  show "error (commit st (fst (fetchSales direction now (OkJson (Some d)) now' st dc))) = Some LOAD_FAILED"
    by (simp add: bad)
  show "loading (commit st (fst (fetchSales direction now (OkJson (Some d)) now' st dc))) = False"
    by (simp add: bad)
  show "totalSalesData (commit st (fst (fetchSales direction now (OkJson (Some d)) now' st dc)))
        = totalSalesData st"
    by (simp add: bad)
  show "salesData (commit st (fst (fetchSales direction now (OkJson (Some d)) now' st dc)))
        = salesData st"
    by (simp add: bad)
  show "beforeToken (commit st (fst (fetchSales direction now (OkJson (Some d)) now' st dc)))
        = beforeToken st"
    by (simp add: bad)
  show "afterToken (commit st (fst (fetchSales direction now (OkJson (Some d)) now' st dc)))
        = afterToken st"
    by (simp add: bad)
qed

theorem fetchSales_defaults_witness:
  "truthy (authToken scenario_controller) \<and>
   fst (Cache_get 0 (getCacheKey (filters None scenario_controller)) dataCache) = None \<and>
   results \<lparr>results = Some \<lparr>TotalSales = None, Sales = None\<rparr>, pagination = None\<rparr>
     = Some \<lparr>TotalSales = None, Sales = None\<rparr> \<and>
   error (commit scenario_controller (fst (fetchSales None 0
      (OkJson (Some \<lparr>results = Some \<lparr>TotalSales = None, Sales = None\<rparr>, pagination = None\<rparr>))
      200 scenario_controller dataCache))) = None \<and>
   totalSalesData (commit scenario_controller (fst (fetchSales None 0
      (OkJson (Some \<lparr>results = Some \<lparr>TotalSales = None, Sales = None\<rparr>, pagination = None\<rparr>))
      200 scenario_controller dataCache))) = [] \<and>
   salesData (commit scenario_controller (fst (fetchSales None 0
      (OkJson (Some \<lparr>results = Some \<lparr>TotalSales = None, Sales = None\<rparr>, pagination = None\<rparr>))
      200 scenario_controller dataCache))) = [] \<and>
   beforeToken (commit scenario_controller (fst (fetchSales None 0
      (OkJson (Some \<lparr>results = Some \<lparr>TotalSales = None, Sales = None\<rparr>, pagination = None\<rparr>))
      200 scenario_controller dataCache))) = [] \<and>
   afterToken (commit scenario_controller (fst (fetchSales None 0
      (OkJson (Some \<lparr>results = Some \<lparr>TotalSales = None, Sales = None\<rparr>, pagination = None\<rparr>))
      200 scenario_controller dataCache))) = [] \<and>
   results \<lparr>results = None, pagination = None\<rparr> = None \<and>
   error (commit scenario_controller (fst (fetchSales None 0
      (OkJson (Some \<lparr>results = None, pagination = None\<rparr>))
      200 scenario_controller dataCache))) = Some LOAD_FAILED"
proof -
  have t: "truthy (authToken scenario_controller)"
    by (simp add: scenario_controller_def)
  have m: "fst (Cache_get 0 (getCacheKey (filters None scenario_controller)) dataCache) = None"
    by (rule dataCache_miss)
  from fetchSales_defaults [OF t m,
      of "\<lparr>results = Some \<lparr>TotalSales = None, Sales = None\<rparr>, pagination = None\<rparr>"
         "\<lparr>TotalSales = None, Sales = None\<rparr>" 200]
    fetchSales_defaults [OF t m, of "\<lparr>results = None, pagination = None\<rparr>"
         "\<lparr>TotalSales = None, Sales = None\<rparr>" 200]
    t m
  show ?thesis by simp
qed

lemma fetchSales_requests:
  "requests (fst (fetchSales direction now reply now' st dc)) = [] \<or>
   requests (fst (fetchSales direction now reply now' st dc))
     = [(the (authToken st), fetchSalesData_searchParams (filters direction st))]"
  using fetchSales_body_requests [of direction "the (authToken st)" now reply now' st dc]
  by (simp add: fetchSales_def)

lemma searchParams_filters_after:
  "map snd (filter (\<lambda>p. fst p = ''after'') (fetchSalesData_searchParams (filters direction st)))
     = (if direction = Some Next \<and> afterToken st \<noteq> [] then [afterToken st] else [])"
  by (simp add: fetchSalesData_searchParams_def filters_def)

lemma searchParams_filters_before:
  "map snd (filter (\<lambda>p. fst p = ''before'') (fetchSalesData_searchParams (filters direction st)))
     = (if direction = Some Prev \<and> beforeToken st \<noteq> [] then [beforeToken st] else [])"
  by (simp add: fetchSalesData_searchParams_def filters_def)

lemma searchParams_filters_exclusive:
  "filter (\<lambda>p. fst p = ''after'') (fetchSalesData_searchParams (filters direction st)) = [] \<or>
   filter (\<lambda>p. fst p = ''before'') (fetchSalesData_searchParams (filters direction st)) = []"
  by (simp add: fetchSalesData_searchParams_def filters_def)

text \<open>
  Claim C9. Every request \<open>fetchSales\<close> sends carries the parameter \<open>after\<close> exactly when
  the direction is \<open>next\<close> and the stored after-cursor is not empty (its value is that
  cursor), the parameter \<open>before\<close> exactly when the direction is \<open>prev\<close> and the stored
  before-cursor is not empty, and never both; with no direction it carries neither.
\<close>

theorem fetchSales_one_cursor:
  "\<forall>(token, query) \<in> set (requests (fst (fetchSales direction now reply now' st dc))).
     map snd (filter (\<lambda>p. fst p = ''after'') query)
       = (if direction = Some Next \<and> afterToken st \<noteq> [] then [afterToken st] else []) \<and>
     map snd (filter (\<lambda>p. fst p = ''before'') query)
       = (if direction = Some Prev \<and> beforeToken st \<noteq> [] then [beforeToken st] else []) \<and>
     (filter (\<lambda>p. fst p = ''after'') query = [] \<or> filter (\<lambda>p. fst p = ''before'') query = [])"
proof -
  let ?q = "fetchSalesData_searchParams (filters direction st)"
  have q: "map snd (filter (\<lambda>p. fst p = ''after'') ?q)
       = (if direction = Some Next \<and> afterToken st \<noteq> [] then [afterToken st] else []) \<and>
     map snd (filter (\<lambda>p. fst p = ''before'') ?q)
       = (if direction = Some Prev \<and> beforeToken st \<noteq> [] then [beforeToken st] else []) \<and>
     (filter (\<lambda>p. fst p = ''after'') ?q = [] \<or> filter (\<lambda>p. fst p = ''before'') ?q = [])"
    using searchParams_filters_after searchParams_filters_before searchParams_filters_exclusive
    by blast
  from fetchSales_requests [of direction now reply now' st dc] show ?thesis
  proof
    assume "requests (fst (fetchSales direction now reply now' st dc)) = []"
    then show ?thesis by simp
  next
    assume "requests (fst (fetchSales direction now reply now' st dc))
      = [(the (authToken st), ?q)]"
    with q show ?thesis by simp
  qed
qed

theorem fetchSales_one_cursor_witness:
  "requests (fst (fetchSales (Some Next) 0 Rejected 200
      (scenario_controller\<lparr>beforeToken := ''tok0'', afterToken := ''tok2''\<rparr>) dataCache))
     = [(''tok'', [(''startDate'', ''2025-01-01''), (''endDate'', ''2025-01-31''),
          (''priceMin'', []), (''email'', []), (''phone'', []), (''sortBy'', ''date''),
          (''sortOrder'', ''asc''), (''after'', ''tok2'')])] \<and>
   map snd (filter (\<lambda>p. fst p = ''after'')
      [(''startDate'', ''2025-01-01''), (''endDate'', ''2025-01-31''),
       (''priceMin'', []), (''email'', []), (''phone'', []), (''sortBy'', ''date''),
       (''sortOrder'', ''asc''), (''after'', ''tok2'')]) = [''tok2''] \<and>
   map snd (filter (\<lambda>p. fst p = ''before'')
      [(''startDate'', ''2025-01-01''), (''endDate'', ''2025-01-31''),
       (''priceMin'', []), (''email'', []), (''phone'', []), (''sortBy'', ''date''),
       (''sortOrder'', ''asc''), (''after'', ''tok2'')]) = []"
proof -
  let ?st = "scenario_controller\<lparr>beforeToken := ''tok0'', afterToken := ''tok2''\<rparr>"
  let ?q = "[(''startDate'', ''2025-01-01''), (''endDate'', ''2025-01-31''),
       (''priceMin'', []), (''email'', []), (''phone'', []), (''sortBy'', ''date''),
       (''sortOrder'', ''asc''), (''after'', ''tok2'')]"
  have r: "requests (fst (fetchSales (Some Next) 0 Rejected 200 ?st dataCache)) = [(''tok'', ?q)]"
    by (simp add: fetchSales_def fetchSales_body_def
        Cache_get_def dataCache_def new_Cache_def fetchSalesData_def
        fetchSalesData_searchParams_def filters_def scenario_controller_def initial_controller_def)
  have a: "afterToken ?st = ''tok2''" and b: "beforeToken ?st = ''tok0''"
    by simp_all
  from fetchSales_one_cursor [of "Some Next" 0 Rejected 200 ?st dataCache]
  have "map snd (filter (\<lambda>p. fst p = ''after'') ?q)
       = (if Some Next = Some Next \<and> afterToken ?st \<noteq> [] then [afterToken ?st] else []) \<and>
     map snd (filter (\<lambda>p. fst p = ''before'') ?q)
       = (if Some Next = Some Prev \<and> beforeToken ?st \<noteq> [] then [beforeToken ?st] else [])"
    unfolding r by simp
  with r show ?thesis by (simp only: a b) simp
qed


section \<open>The two variants\<close>

lemma part_005_fetchSales_invalid_range:
  assumes "truthy (authToken st)" "startDate st \<noteq> []" "endDate st \<noteq> []"
    "js_string_less (endDate st) (startDate st)"
  shows "part_005_fetchSales direction now reply now' st dc = ([SetError (Some INVALID_RANGE)], dc)"
  using assms by (simp add: part_005_fetchSales_def isDateRangeValid_def)

text \<open>
  Claim C3, on \<open>fetchSales\<close> of \<^verbatim>\<open>src/components/SalesDashboard.tsx\<close>. That variant does
  not look at the date range (\<open>part_005_fetchSales_invalid_range\<close> is the variant that
  does): with \<open>startDate = "2025-02-01"\<close> after \<open>endDate = "2025-01-01"\<close>, a token and an
  empty cache, it sends the request with the inverted range, sets no error and adopts
  the response.
\<close>

theorem fetchSales_inverted_range:
  "startDate (initial_controller\<lparr>authToken := Some ''tok'', startDate := ''2025-02-01'',
      endDate := ''2025-01-01''\<rparr>) \<noteq> [] \<and>
   endDate (initial_controller\<lparr>authToken := Some ''tok'', startDate := ''2025-02-01'',
      endDate := ''2025-01-01''\<rparr>) \<noteq> [] \<and>
   js_string_less
     (endDate (initial_controller\<lparr>authToken := Some ''tok'', startDate := ''2025-02-01'',
        endDate := ''2025-01-01''\<rparr>))
     (startDate (initial_controller\<lparr>authToken := Some ''tok'', startDate := ''2025-02-01'',
        endDate := ''2025-01-01''\<rparr>)) \<and>
   fst (fetchSales None 0 (OkJson (Some scenario_response)) 200
      (initial_controller\<lparr>authToken := Some ''tok'', startDate := ''2025-02-01'',
         endDate := ''2025-01-01''\<rparr>) dataCache)
    = [SetLoading True, SetError None,
       Fetch ''tok'' [(''startDate'', ''2025-02-01''), (''endDate'', ''2025-01-01''),
         (''priceMin'', []), (''email'', []), (''phone'', []), (''sortBy'', ''date''),
         (''sortOrder'', ''asc'')],
       SetTotalSalesData [\<lparr>day = ''2025-01-01'', totalSale = 500\<rparr>],
       SetSalesData [\<lparr>sale_id = ''1'', date = ''2025-01-01T10:00:00Z'', price = 500,
          customerEmail = ''a@b.com'', customerPhone = ''+1'', version = 0\<rparr>],
       SetBeforeToken [], SetAfterToken ''tok2'', SetLoading False]"
  by (simp add: initial_controller_def scenario_response_def fetchSales_def fetchSales_body_def
      Cache_get_def dataCache_def new_Cache_def fetchSalesData_def fetchSalesData_searchParams_def
      filters_def)

lemma fetchSalesData_searchParams_all:
  "map fst (fetchSalesData_searchParams params) = map (\<lambda>p. field_name (fst p)) params \<and>
   map snd (fetchSalesData_searchParams params) = map snd params"
  by (induction params) (auto simp: fetchSalesData_searchParams_def)

text \<open>
  Claim C4, on \<open>fetchSalesData\<close> of \<^verbatim>\<open>src/lib/api.ts\<close>. The controller's own
  \<open>fetchSalesData\<close> appends every field (\<open>fetchSalesData_searchParams_all\<close>); the module's
  appends a field only when its value is truthy. For the filters of a controller whose
  dates were cleared the module's request carries \<open>sortBy\<close> and \<open>sortOrder\<close> alone, the
  controller's all seven fields, five of them empty.
\<close>

theorem api_fetchSalesData_omits_empty:
  "filters None (initial_controller\<lparr>startDate := [], endDate := []\<rparr>)
     = [(StartDate, []), (EndDate, []), (PriceMin, []), (Email, []), (Phone, []),
        (SortBy, ''date''), (SortOrder, ''asc'')] \<and>
   fst (api_fetchSalesData ''tok'' (filters None (initial_controller\<lparr>startDate := [], endDate := []\<rparr>))
          (OkJson (Some scenario_response)))
     = Fetch ''tok'' [(''sortBy'', ''date''), (''sortOrder'', ''asc'')] \<and>
   fst (fetchSalesData ''tok'' (filters None (initial_controller\<lparr>startDate := [], endDate := []\<rparr>))
          (OkJson (Some scenario_response)))
     = Fetch ''tok'' [(''startDate'', []), (''endDate'', []), (''priceMin'', []), (''email'', []),
         (''phone'', []), (''sortBy'', ''date''), (''sortOrder'', ''asc'')]"
  by (simp add: initial_controller_def filters_def api_fetchSalesData_def
      api_fetchSalesData_searchParams_def fetchSalesData_def fetchSalesData_searchParams_def)

end
